theory Spec2Isabelle
  imports Main
begin

section \<open>JavaScript values\<close>

text \<open>
  The permission column of a user row reaches the code as an arbitrary JavaScript value
  (a parsed JSON column, a string, \<open>null\<close>). \<open>JNull\<close> stands for \<open>null\<close> and
  \<open>undefined\<close>. The pairs of \<open>JObj\<close> are listed in property enumeration order, so that
  \<open>Object.values\<close> is the list of second components. Strings are ASCII.
\<close>

datatype jsval =
    JNull
  | JBool bool
  | JNum int
  | JStr string
  | JArr "jsval list"
  | JObj "(string \<times> jsval) list"

text \<open>The operand test of \<open>!v\<close>: \<open>falsy v\<close> holds when \<open>!v\<close> is true.\<close>

fun falsy :: "jsval \<Rightarrow> bool" where
  "falsy JNull = True"
| "falsy (JBool b) = (\<not> b)"
| "falsy (JNum n) = (n = 0)"
| "falsy (JStr s) = (s = [])"
| "falsy (JArr xs) = False"
| "falsy (JObj kvs) = False"

fun primitive :: "jsval \<Rightarrow> bool" where
  "primitive (JArr xs) = False"
| "primitive (JObj kvs) = False"
| "primitive v = True"

text \<open>
  \<open>JSON.parse\<close> is a builtin: \<open>decode\<close> is any function from texts to values, \<open>None\<close>
  where the builtin throws. The one fact of the builtin that is kept is that a text which
  decodes to a string is longer than that string (it carries the two quotes).
\<close>

definition JSON_parse :: "(string \<Rightarrow> jsval option) \<Rightarrow> string \<Rightarrow> jsval option" where
  "JSON_parse decode s =
     (case decode s of
        Some (JStr t) \<Rightarrow> (if length t < length s then Some (JStr t) else None)
      | r \<Rightarrow> r)"

subsection \<open>String helpers\<close>

text \<open>\<open>s.split(',')\<close>: the pieces between the separators, empty pieces included.\<close>

fun split_on :: "char \<Rightarrow> string \<Rightarrow> string list" where
  "split_on c [] = [[]]"
| "split_on c (x # xs) =
     (if x = c then [] # split_on c xs
      else (case split_on c xs of
              [] \<Rightarrow> [[x]]
            | y # ys \<Rightarrow> (x # y) # ys))"

definition is_ws :: "char \<Rightarrow> bool" where
  "is_ws c = (c \<in> set [CHR 0x09, CHR 0x0A, CHR 0x0B, CHR 0x0C, CHR 0x0D, CHR '' ''])"

definition trim :: "string \<Rightarrow> string" where
  "trim s = rev (dropWhile is_ws (rev (dropWhile is_ws s)))"

definition includes_comma :: "string \<Rightarrow> bool" where
  "includes_comma s = (CHR '','' \<in> set s)"

section \<open>backend/lib/rolePermissions.js\<close>

definition user_permissions :: "string list" where
  "user_permissions =
     [''courses:view'', ''courses:take'', ''profile:edit'', ''certificates:view'',
      ''achievements:view'', ''progress:view'']"

definition content_manager_permissions :: "string list" where
  "content_manager_permissions =
     [''courses:view'', ''courses:take'', ''analytics:view'', ''content:edit'',
      ''content:delete'', ''content:create'', ''instructors:manage'', ''media:upload'',
      ''content:review'', ''content:publish'', ''content:workflow'', ''profile:edit'',
      ''certificates:view'', ''achievements:view'', ''progress:view'']"

definition community_manager_permissions :: "string list" where
  "community_manager_permissions =
     [''courses:view'', ''courses:take'', ''analytics:view'', ''users:manage'',
      ''users:view'', ''users:suspend'', ''users:activate'', ''users:ban'', ''users:unban'',
      ''community:moderate'', ''support:handle'', ''support:view_tickets'',
      ''support:respond_tickets'', ''users:view_activity'', ''profile:edit'',
      ''certificates:view'', ''achievements:view'', ''progress:view'']"

definition user_support_permissions :: "string list" where
  "user_support_permissions =
     [''courses:view'', ''courses:take'', ''analytics:view'', ''support:handle'',
      ''support:view_tickets'', ''support:respond_tickets'', ''support:close_tickets'',
      ''community:moderate_basic'', ''users:view_profile'', ''users:view_activity'',
      ''profile:edit'', ''certificates:view'', ''achievements:view'', ''progress:view'']"

definition super_admin_permissions :: "string list" where
  "super_admin_permissions =
     [''courses:view'', ''courses:take'', ''analytics:view'', ''content:edit'',
      ''content:delete'', ''content:create'', ''instructors:manage'', ''media:upload'',
      ''content:review'', ''content:publish'', ''content:workflow'', ''users:manage'',
      ''users:view'', ''users:suspend'', ''users:activate'', ''users:ban'', ''users:unban'',
      ''community:moderate'', ''support:handle'', ''support:view_tickets'',
      ''support:respond_tickets'', ''support:close_tickets'', ''users:view_activity'',
      ''audit:view'', ''audit:export'', ''system:configure'', ''system:backup'',
      ''system:maintenance'', ''admins:create'', ''super_admins:manage'',
      ''security:configure'', ''database:manage'', ''profile:edit'', ''certificates:view'',
      ''achievements:view'', ''progress:view'']"

definition ROLE_PERMISSIONS :: "(string \<times> string list) list" where
  "ROLE_PERMISSIONS =
     [(''user'', user_permissions),
      (''content_manager'', content_manager_permissions),
      (''community_manager'', community_manager_permissions),
      (''user_support'', user_support_permissions),
      (''super_admin'', super_admin_permissions)]"

text \<open>
  \<open>ROLE_PERMISSIONS[role] || ROLE_PERMISSIONS.user\<close>. The table is a plain object, so
  indexing it also finds the members it inherits from \<open>Object.prototype\<close>: functions
  and, for \<open>__proto__\<close>, an object. They are truthy, and the lookup returns them instead
  of the permissions of \<open>user\<close>.
\<close>

definition Object_prototype_keys :: "string list" where
  "Object_prototype_keys =
     [''constructor'', ''__defineGetter__'', ''__defineSetter__'', ''hasOwnProperty'',
      ''__lookupGetter__'', ''__lookupSetter__'', ''isPrototypeOf'', ''propertyIsEnumerable'',
      ''toString'', ''valueOf'', ''__proto__'', ''toLocaleString'']"

datatype role_entry = PermissionList "string list" | PrototypeMember string

definition getPermissionsForRole :: "string \<Rightarrow> role_entry" where
  "getPermissionsForRole role =
     (case map_of ROLE_PERMISSIONS role of
        Some ps \<Rightarrow> PermissionList ps
      | None \<Rightarrow>
          (if role \<in> set Object_prototype_keys then PrototypeMember role
           else PermissionList user_permissions))"

section \<open>backend/lib/permissions.js\<close>

definition normalize_all :: "jsval \<Rightarrow> jsval" where
  "normalize_all permission =
     (if permission = JStr ''all'' then JStr ''system:full_access'' else permission)"

text \<open>The \<open>catch\<close> branch of a string that is not JSON, also used on a single object value.\<close>

definition legacy_string :: "string \<Rightarrow> jsval list" where
  "legacy_string s =
     (if s = ''all'' then [JStr ''system:full_access'']
      else if includes_comma s then map (\<lambda>p. JStr (trim p)) (split_on CHR '','' s)
      else [JStr s])"

definition object_values :: "(string \<times> jsval) list \<Rightarrow> jsval list" where
  "object_values kvs =
     (let values = map snd kvs in
      (case values of
         [v] \<Rightarrow>
           (if v = JStr ''all'' then [JStr ''system:full_access'']
            else (case v of
                    JStr s \<Rightarrow>
                      (if includes_comma s
                       then map (\<lambda>p. JStr (trim p)) (split_on CHR '','' s)
                       else [v])
                  | _ \<Rightarrow> [v]))
       | _ \<Rightarrow> values))"

function parsePermissions :: "(string \<Rightarrow> jsval option) \<Rightarrow> jsval \<Rightarrow> jsval list" where
  "parsePermissions decode permissions =
     (if falsy permissions then []
      else (case permissions of
              JArr xs \<Rightarrow> map normalize_all xs
            | JStr s \<Rightarrow>
                (case JSON_parse decode s of
                   Some parsed \<Rightarrow> parsePermissions decode parsed
                 | None \<Rightarrow> legacy_string s)
            | JObj kvs \<Rightarrow> object_values kvs
            | _ \<Rightarrow> []))"
  by pat_completeness auto
termination
proof (relation "measure (\<lambda>(decode, v). case v of JStr s \<Rightarrow> Suc (length s) | _ \<Rightarrow> 0)")
  show "wf (measure (\<lambda>(decode, v). case v of JStr s \<Rightarrow> Suc (length s) | _ \<Rightarrow> 0))"
    by simp
next
  fix decode :: "string \<Rightarrow> jsval option" and permissions s parsed
  assume "permissions = JStr s" and "JSON_parse decode s = Some parsed"
  then show "((decode, parsed), (decode, permissions))
       \<in> measure (\<lambda>(decode, v). case v of JStr s \<Rightarrow> Suc (length s) | _ \<Rightarrow> 0)"
    by (auto simp: JSON_parse_def split: option.splits jsval.splits if_splits)
qed

text \<open>
  \<open>new Set(xs)\<close> followed by \<open>Array.from\<close>: first occurrences in insertion order. The
  set compares with SameValueZero: primitives by value, arrays and objects by identity,
  and the arrays and objects of a decoded value are pairwise different objects.
\<close>

fun sameValueZero :: "jsval \<Rightarrow> jsval \<Rightarrow> bool" where
  "sameValueZero x y = (primitive x \<and> x = y)"

definition Set_add :: "jsval list \<Rightarrow> jsval \<Rightarrow> jsval list" where
  "Set_add acc x = (if list_ex (\<lambda>y. sameValueZero y x) acc then acc else acc @ [x])"

definition new_Set :: "jsval list \<Rightarrow> jsval list" where
  "new_Set xs = foldl Set_add [] xs"

text \<open>
  What \<open>getUserPermissions\<close> returns: an array of permissions, or the inherited member
  itself when the role names one and nothing is stored. Spreading such a member into the
  array literal throws a \<open>TypeError\<close>, since it is not iterable.
\<close>

datatype js_error = TypeError | IllegalArguments

datatype resolved = PermissionArray "jsval list" | NotAnArray string

definition getUserPermissions ::
    "(string \<Rightarrow> jsval option) \<Rightarrow> string \<Rightarrow> jsval \<Rightarrow> js_error + resolved" where
  "getUserPermissions decode role storedPermissions =
     (let rolePermissions = getPermissionsForRole role in
      if falsy storedPermissions
      then (case rolePermissions of
              PermissionList ps \<Rightarrow> Inr (PermissionArray (map JStr ps))
            | PrototypeMember k \<Rightarrow> Inr (NotAnArray k))
      else
        (let parsedStoredPermissions = parsePermissions decode storedPermissions
         in (case rolePermissions of
               PermissionList ps \<Rightarrow>
                 Inr (PermissionArray (new_Set (map JStr ps @ parsedStoredPermissions)))
             | PrototypeMember k \<Rightarrow> Inl TypeError)))"


section \<open>JSON Web Tokens\<close>

text \<open>
  The \<open>jsonwebtoken\<close> library, symbolically. A token string is either a well-formed
  HS256 token, determined by its signing key and its payload, or any other string. Signing
  is deterministic: the same payload under the same key is the same string. Times in
  claims are seconds, wall-clock times are milliseconds.
\<close>

record payload =
  userId :: int
  role_claim :: "string option"
  type_claim :: "string option"
  iat_claim :: int
  exp_claim :: int

datatype token = JWT string payload | Malformed string

datatype jwt_error = JsonWebTokenError | TokenExpiredError | Error

text \<open>\<open>jwt.sign(payload, secret, {expiresIn})\<close> for a payload that carries \<open>iat\<close>.\<close>

definition jwt_sign :: "int \<Rightarrow> string option \<Rightarrow> string option \<Rightarrow> int \<Rightarrow> string \<Rightarrow> int \<Rightarrow> token" where
  "jwt_sign uid r t iat secret expiresIn =
     JWT secret \<lparr>userId = uid, role_claim = r, type_claim = t, iat_claim = iat,
                 exp_claim = iat + expiresIn\<rparr>"

definition jwt_verify :: "token \<Rightarrow> string \<Rightarrow> int \<Rightarrow> jwt_error + payload" where
  "jwt_verify tok secret now =
     (case tok of
        Malformed s \<Rightarrow> Inl JsonWebTokenError
      | JWT k p \<Rightarrow>
          (if k \<noteq> secret then Inl JsonWebTokenError
           else if now div 1000 \<ge> exp_claim p then Inl TokenExpiredError
           else Inr p))"

section \<open>The users table\<close>

text \<open>
  A row of \<open>users\<close>, with the columns the authentication routes read and write.
  Timestamps are milliseconds since the epoch. A \<open>NULL\<close> role is the empty string (both
  are falsy, and the role is only used after that test); a \<open>NULL\<close> password hash is
  \<open>None\<close>. The table is the list of its rows.
\<close>

record user =
  id_col :: int
  email :: string
  full_name :: string
  password :: "string option"
  role :: string
  permissions :: jsval
  is_active :: bool
  failed_login_attempts :: nat
  last_failed_login :: "int option"
  last_login :: "int option"
  refresh_token :: "token option"

text \<open>\<open>UPDATE users SET ... WHERE id = ?\<close>\<close>

definition update_where_id :: "int \<Rightarrow> (user \<Rightarrow> user) \<Rightarrow> user list \<Rightarrow> user list" where
  "update_where_id i f users = map (\<lambda>u. if id_col u = i then f u else u) users"

section \<open>The auth middleware\<close>

text \<open>
  What the process reads from its environment and the libraries and services it calls:
  the signing secret, the two lifetimes in seconds, the answer of \<open>bcrypt.compare\<close> on
  two strings, the decoder behind \<open>JSON.parse\<close>, and the comparison \<open>email = ?\<close> the
  database makes between a stored address and the bound request value (any JSON value;
  the collation and the casts are the database's).
\<close>

record env =
  JWT_SECRET :: string
  JWT_EXPIRES_IN :: int
  REFRESH_TOKEN_EXPIRES_IN :: int
  bcrypt_compare :: "string \<Rightarrow> string \<Rightarrow> bool"
  JSON_decode :: "string \<Rightarrow> jsval option"
  email_matches :: "jsval \<Rightarrow> string \<Rightarrow> bool"

text \<open>
  A JSON response: the status and the \<open>error\<close>, \<open>code\<close> and \<open>retryAfter\<close> members of an
  error body, or one of the success bodies.
\<close>

datatype userData = UserData int string string string "jsval list"

datatype response =
    ErrorResponse nat string string "int option"
  | LoginSuccessful token token userData
  | TokenRefreshed token token
  | LogoutSuccessful

text \<open>\<open>Math.ceil(x / d)\<close> on integers.\<close>

definition ceil_div :: "int \<Rightarrow> int \<Rightarrow> int" where
  "ceil_div x d = - ((- x) div d)"

definition validateUserId :: "int \<Rightarrow> bool" where
  "validateUserId uid = (uid \<noteq> 0 \<and> uid > 0)"

subsection \<open>comparePassword\<close>

text \<open>
  \<open>bcrypt.compare(password, hash)\<close>: the library rejects with an \<open>Error\<close> (illegal
  arguments) unless both arguments are strings, and the \<open>await\<close> throws it.
\<close>

definition comparePassword :: "env \<Rightarrow> jsval \<Rightarrow> string option \<Rightarrow> js_error + bool" where
  "comparePassword E req_password hash =
     (case req_password of
        JStr p \<Rightarrow>
          (case hash of
             Some h \<Rightarrow> Inr (bcrypt_compare E p h)
           | None \<Rightarrow> Inl IllegalArguments)
      | _ \<Rightarrow> Inl IllegalArguments)"

subsection \<open>rateLimit\<close>

record rl_record =
  count :: nat
  resetTime :: int

type_synonym rateLimitStore = "string \<Rightarrow> rl_record option"

text \<open>
  The middleware \<open>rateLimit(maxRequests, windowMs)\<close> on a request from address \<open>key\<close> at
  time \<open>now\<close>: \<open>None\<close> is \<open>next()\<close>. All instances share the one module-level store.
\<close>

definition rateLimit :: "nat \<Rightarrow> int \<Rightarrow> string \<Rightarrow> int \<Rightarrow> rateLimitStore \<Rightarrow> response option \<times> rateLimitStore" where
  "rateLimit maxRequests windowMs key now store =
     (case store key of
        None \<Rightarrow> (None, store(key \<mapsto> \<lparr>count = 1, resetTime = now + windowMs\<rparr>))
      | Some record \<Rightarrow>
          (let record' =
                 (if now > resetTime record
                  then \<lparr>count = 1, resetTime = now + windowMs\<rparr>
                  else record\<lparr>count := count record + 1\<rparr>);
               store' = store(key \<mapsto> record')
           in if count record' > maxRequests
              then (Some (ErrorResponse 429 ''Too many requests'' ''RATE_LIMIT_EXCEEDED''
                            (Some (ceil_div (resetTime record' - now) 1000))), store')
              else (None, store')))"

subsection \<open>Tokens\<close>

definition generateToken :: "env \<Rightarrow> int \<Rightarrow> string \<Rightarrow> int \<Rightarrow> jwt_error + token" where
  "generateToken E uid r now =
     (if \<not> validateUserId uid then Inl Error
      else if r = [] then Inl Error
      else Inr (jwt_sign uid (Some r) None (now div 1000) (JWT_SECRET E) (JWT_EXPIRES_IN E)))"

definition generateRefreshToken :: "env \<Rightarrow> int \<Rightarrow> int \<Rightarrow> jwt_error + token" where
  "generateRefreshToken E uid now =
     (if \<not> validateUserId uid then Inl Error
      else Inr (jwt_sign uid None (Some ''refresh'') (now div 1000) (JWT_SECRET E)
                  (REFRESH_TOKEN_EXPIRES_IN E)))"

definition verifyRefreshToken :: "env \<Rightarrow> token \<Rightarrow> int \<Rightarrow> jwt_error + payload" where
  "verifyRefreshToken E refreshToken now =
     (if refreshToken = Malformed [] then Inl Error
      else (case jwt_verify refreshToken (JWT_SECRET E) now of
              Inl e \<Rightarrow> Inl e
            | Inr decoded \<Rightarrow>
                (if type_claim decoded \<noteq> Some ''refresh'' then Inl Error
                 else if \<not> validateUserId (userId decoded) then Inl Error
                 else Inr decoded)))"

subsection \<open>authenticateToken\<close>

datatype req_user = ReqUser int string string string "jsval list" "int option"

text \<open>
  The bearer token of the \<open>authorization\<close> header (the empty string when there is none),
  checked at time \<open>now\<close> against the table: \<open>Inr\<close> is \<open>next()\<close> with \<open>req.user\<close> set.
  \<open>sanitizeParam\<close> returns a validated numeric id as it is, so its \<open>null\<close> branch is
  not reached.
\<close>

definition authenticateToken :: "env \<Rightarrow> token \<Rightarrow> int \<Rightarrow> user list \<Rightarrow> response + req_user" where
  "authenticateToken E tok now users =
     (if tok = Malformed [] then Inl (ErrorResponse 401 ''Access token required'' ''TOKEN_MISSING'' None)
      else (case jwt_verify tok (JWT_SECRET E) now of
              Inl JsonWebTokenError \<Rightarrow> Inl (ErrorResponse 401 ''Invalid token'' ''TOKEN_INVALID'' None)
            | Inl TokenExpiredError \<Rightarrow> Inl (ErrorResponse 401 ''Token expired'' ''TOKEN_EXPIRED'' None)
            | Inl Error \<Rightarrow> Inl (ErrorResponse 401 ''Authentication failed'' ''AUTH_FAILED'' None)
            | Inr decoded \<Rightarrow>
                (if exp_claim decoded \<noteq> 0 \<and> now \<ge> exp_claim decoded * 1000
                 then Inl (ErrorResponse 401 ''Token expired'' ''TOKEN_EXPIRED'' None)
                 else if \<not> validateUserId (userId decoded)
                 then Inl (ErrorResponse 401 ''Invalid token payload'' ''TOKEN_INVALID'' None)
                 else (case filter (\<lambda>u. id_col u = userId decoded \<and> is_active u) users of
                         [] \<Rightarrow> Inl (ErrorResponse 401 ''User account not found or inactive''
                                      ''USER_NOT_FOUND'' None)
                       | user # rest \<Rightarrow>
                           (if \<not> is_active user
                            then Inl (ErrorResponse 403 ''Account is suspended''
                                        ''ACCOUNT_SUSPENDED'' None)
                            else Inr (ReqUser (id_col user) (email user) (full_name user)
                                        (role user)
                                        (parsePermissions (JSON_decode E) (permissions user))
                                        (last_login user)))))))"


section \<open>backend/routes/secureRoutes.js\<close>

text \<open>
  A handler takes the request body, the value \<open>now\<close> of \<open>Date.now()\<close> and the value
  \<open>sqlnow\<close> of the database's \<open>NOW()\<close> during the request (every reading of a clock
  within one request gives the same value), and the table; it returns the response and
  the table after its updates. The fields \<open>email\<close> and \<open>password\<close> of a login body
  are arbitrary JSON values, \<open>JNull\<close> when absent. The database is taken to answer
  every query, so a handler's outer \<open>catch\<close> is reached only by an exception of
  \<open>comparePassword\<close> or of the token functions.
\<close>

subsection \<open>POST /auth/login\<close>

text \<open>
  The third component of the result counts the calls of \<open>comparePassword\<close> the request
  made. When that call throws, the handler's outer \<open>catch\<close> answers; the reset of an
  expired lockout has then been written and nothing else.
\<close>

definition invalid_credentials :: response where
  "invalid_credentials = ErrorResponse 401 ''Invalid credentials'' ''INVALID_CREDENTIALS'' None"

definition login_handler ::
    "env \<Rightarrow> jsval \<Rightarrow> jsval \<Rightarrow> int \<Rightarrow> int \<Rightarrow> user list \<Rightarrow> response \<times> user list \<times> nat" where
  "login_handler E req_email req_password now sqlnow users =
     (if falsy req_email \<or> falsy req_password
      then (ErrorResponse 400 ''Email and password are required'' ''MISSING_CREDENTIALS'' None,
            users, 0)
      else (case filter (\<lambda>u. email_matches E req_email (email u)) users of
         [] \<Rightarrow> (invalid_credentials, users, 0)
       | user # rest \<Rightarrow>
          (if id_col user = 0 \<or> role user = []
           then (ErrorResponse 500 ''Invalid user data'' ''INTERNAL_ERROR'' None, users, 0)
           else if \<not> is_active user
           then (ErrorResponse 403 ''Account is suspended'' ''ACCOUNT_SUSPENDED'' None, users, 0)
           else
            (let lockoutTime = 15 * 60 * 1000;
                 timeSinceLastFailed =
                   now - (case last_failed_login user of None \<Rightarrow> 0 | Some t \<Rightarrow> t)
             in if failed_login_attempts user \<ge> 5 \<and> timeSinceLastFailed < lockoutTime
                then (ErrorResponse 429
                        ''Account temporarily locked due to too many failed attempts''
                        ''ACCOUNT_LOCKED''
                        (Some (ceil_div (lockoutTime - timeSinceLastFailed) 1000)),
                      users, 0)
                else
                 (let users1 =
                        (if failed_login_attempts user \<ge> 5
                         then update_where_id (id_col user)
                                (\<lambda>u. u\<lparr>failed_login_attempts := 0\<rparr>) users
                         else users)
                  in (case comparePassword E req_password (password user) of
                     Inl e \<Rightarrow>
                       (ErrorResponse 500 ''Internal server error'' ''INTERNAL_ERROR'' None,
                        users1, 1)
                   | Inr isValidPassword \<Rightarrow>
                     (if \<not> isValidPassword
                      then (invalid_credentials,
                            update_where_id (id_col user)
                              (\<lambda>u. u\<lparr>failed_login_attempts := failed_login_attempts u + 1,
                                      last_failed_login := Some sqlnow\<rparr>) users1,
                            1)
                      else
                       (let users2 = update_where_id (id_col user)
                              (\<lambda>u. u\<lparr>failed_login_attempts := 0, last_login := Some sqlnow\<rparr>)
                              users1
                        in (case generateToken E (id_col user) (role user) now of
                              Inl e \<Rightarrow>
                                (ErrorResponse 500 ''Token generation failed''
                                   ''TOKEN_GENERATION_ERROR'' None, users2, 1)
                            | Inr accessToken \<Rightarrow>
                                (case generateRefreshToken E (id_col user) now of
                                   Inl e \<Rightarrow>
                                     (ErrorResponse 500 ''Token generation failed''
                                        ''TOKEN_GENERATION_ERROR'' None, users2, 1)
                                 | Inr refreshToken \<Rightarrow>
                                     (LoginSuccessful accessToken refreshToken
                                        (UserData (id_col user) (email user) (full_name user)
                                           (role user)
                                           (parsePermissions (JSON_decode E) (permissions user))),
                                      update_where_id (id_col user)
                                        (\<lambda>u. u\<lparr>refresh_token := Some refreshToken\<rparr>) users2,
                                      1)))))))))))"

subsection \<open>POST /auth/refresh\<close>

text \<open>
  The field \<open>refreshToken\<close> of the body is a token string. A value that is not a string
  takes the same branches as one: the branch of the empty string when it is falsy, and the
  branch of a malformed string otherwise, since \<open>verifyRefreshToken\<close> throws on it
  before the table is read.
\<close>

definition invalid_refresh_token :: response where
  "invalid_refresh_token =
     ErrorResponse 401 ''Invalid refresh token'' ''INVALID_REFRESH_TOKEN'' None"

definition refresh_handler :: "env \<Rightarrow> token \<Rightarrow> int \<Rightarrow> user list \<Rightarrow> response \<times> user list" where
  "refresh_handler E refreshToken now users =
     (if refreshToken = Malformed []
      then (ErrorResponse 400 ''Refresh token is required'' ''MISSING_REFRESH_TOKEN'' None, users)
      else (case verifyRefreshToken E refreshToken now of
         Inl e \<Rightarrow> (invalid_refresh_token, users)
       | Inr decoded \<Rightarrow>
          (if userId decoded = 0 then (invalid_refresh_token, users)
           else (case filter (\<lambda>u. id_col u = userId decoded
                                   \<and> refresh_token u = Some refreshToken) users of
              [] \<Rightarrow> (invalid_refresh_token, users)
            | user # rest \<Rightarrow>
               (if id_col user = 0 \<or> role user = []
                then (ErrorResponse 500 ''Invalid user data'' ''INTERNAL_ERROR'' None, users)
                else (case generateToken E (id_col user) (role user) now of
                   Inl e \<Rightarrow> (invalid_refresh_token, users)
                 | Inr newAccessToken \<Rightarrow>
                    (case generateRefreshToken E (id_col user) now of
                       Inl e \<Rightarrow> (invalid_refresh_token, users)
                     | Inr newRefreshToken \<Rightarrow>
                        (TokenRefreshed newAccessToken newRefreshToken,
                         update_where_id (id_col user)
                           (\<lambda>u. u\<lparr>refresh_token := Some newRefreshToken\<rparr>) users))))))))"

subsection \<open>POST /auth/logout\<close>

text \<open>The handler behind \<open>authenticateToken\<close>: \<open>uid\<close> is \<open>req.user.id\<close>.\<close>

definition logout_handler :: "int \<Rightarrow> user list \<Rightarrow> response \<times> user list" where
  "logout_handler uid users =
     (LogoutSuccessful, update_where_id uid (\<lambda>u. u\<lparr>refresh_token := None\<rparr>) users)"

subsection \<open>The routes\<close>

text \<open>
  The state of the server: the table and the rate-limit store of the middleware module.
  A route runs its middleware chain in order; \<open>auditLog\<close> and \<open>securityHeaders\<close> write
  neither.
\<close>

record server =
  users_table :: "user list"
  rateLimitStore :: rateLimitStore

definition login_route ::
    "env \<Rightarrow> string \<Rightarrow> jsval \<Rightarrow> jsval \<Rightarrow> int \<Rightarrow> int \<Rightarrow> server \<Rightarrow> response \<times> server" where
  "login_route E ip req_email req_password now sqlnow S =
     (case rateLimit 5 (15 * 60 * 1000) ip now (rateLimitStore S) of
        (Some limited, store') \<Rightarrow> (limited, S\<lparr>rateLimitStore := store'\<rparr>)
      | (None, store') \<Rightarrow>
          (case login_handler E req_email req_password now sqlnow (users_table S) of
             (res, users', n) \<Rightarrow> (res, \<lparr>users_table = users', rateLimitStore = store'\<rparr>)))"

definition refresh_route ::
    "env \<Rightarrow> string \<Rightarrow> token \<Rightarrow> int \<Rightarrow> server \<Rightarrow> response \<times> server" where
  "refresh_route E ip refreshToken now S =
     (case rateLimit 10 (15 * 60 * 1000) ip now (rateLimitStore S) of
        (Some limited, store') \<Rightarrow> (limited, S\<lparr>rateLimitStore := store'\<rparr>)
      | (None, store') \<Rightarrow>
          (case refresh_handler E refreshToken now (users_table S) of
             (res, users') \<Rightarrow> (res, \<lparr>users_table = users', rateLimitStore = store'\<rparr>)))"

definition logout_route :: "env \<Rightarrow> token \<Rightarrow> int \<Rightarrow> server \<Rightarrow> response \<times> server" where
  "logout_route E tok now S =
     (case authenticateToken E tok now (users_table S) of
        Inl res \<Rightarrow> (res, S)
      | Inr (ReqUser uid em fn r ps ll) \<Rightarrow>
          (case logout_handler uid (users_table S) of
             (res, users') \<Rightarrow> (res, S\<lparr>users_table := users'\<rparr>)))"

section \<open>Predicates and scenarios used by the statements\<close>

text \<open>
  The condition under which the lockout gate of the login handler lets a request through:
  fewer than five recorded failures, or at least fifteen minutes since the last one.
\<close>

definition unlocked :: "user \<Rightarrow> int \<Rightarrow> bool" where
  "unlocked user now =
     (\<not> (failed_login_attempts user \<ge> 5
          \<and> now - (case last_failed_login user of None \<Rightarrow> 0 | Some t \<Rightarrow> t) < 15 * 60 * 1000))"

text \<open>
  The request for the account \<open>user\<close> is answered by one of the gates in front of
  \<open>comparePassword\<close>: missing credentials, invalid user data, suspended, locked.
\<close>

definition rejected_before_credential_check :: "user \<Rightarrow> jsval \<Rightarrow> jsval \<Rightarrow> int \<Rightarrow> bool" where
  "rejected_before_credential_check user req_email req_password now =
     (falsy req_email \<or> falsy req_password \<or> id_col user = 0 \<or> role user = []
      \<or> \<not> is_active user \<or> \<not> unlocked user now)"

text \<open>The effect on a row of the three updates of a login that issued the token \<open>r\<close>.\<close>

definition after_login :: "user \<Rightarrow> int \<Rightarrow> token \<Rightarrow> user \<Rightarrow> user" where
  "after_login user sqlnow r u =
     (if id_col u = id_col user
      then u\<lparr>failed_login_attempts := 0, last_login := Some sqlnow, refresh_token := Some r\<rparr>
      else u)"

text \<open>Requests in sequence: logins for one address, refreshes from one client address.\<close>

fun login_sequence :: "env \<Rightarrow> jsval \<Rightarrow> (jsval \<times> int) list \<Rightarrow> user list \<Rightarrow> user list" where
  "login_sequence E req_email [] users = users"
| "login_sequence E req_email ((req_password, now) # attempts) users =
     login_sequence E req_email attempts
       (fst (snd (login_handler E req_email req_password now now users)))"

fun refresh_sequence :: "env \<Rightarrow> string \<Rightarrow> (token \<times> int) list \<Rightarrow> server \<Rightarrow> server" where
  "refresh_sequence E ip [] S = S"
| "refresh_sequence E ip ((refreshToken, now) # requests) S =
     refresh_sequence E ip requests (snd (refresh_route E ip refreshToken now S))"

text \<open>
  A concrete environment and account. The stand-in for \<open>bcrypt.compare\<close> accepts the
  password whose hash is the password behind a fixed prefix. The decoder knows three JSON
  texts: the empty array, the quoted word \<open>all\<close> and \<open>null\<close>; the other texts used
  below are not JSON. The database matches a string against an address by equality and
  matches no other value.
\<close>

definition test_decode :: "string \<Rightarrow> jsval option" where
  "test_decode s =
     (if s = ''[]'' then Some (JArr [])
      else if s = CHR 0x22 # ''all'' @ [CHR 0x22] then Some (JStr ''all'')
      else if s = ''null'' then Some JNull
      else None)"

definition test_env :: env where
  "test_env = \<lparr>JWT_SECRET = ''s3cret'', JWT_EXPIRES_IN = 86400,
                REFRESH_TOKEN_EXPIRES_IN = 604800,
                bcrypt_compare = (\<lambda>p h. h = ''bcrypt:'' @ p),
                JSON_decode = test_decode,
                email_matches = (\<lambda>v stored. v = JStr stored)\<rparr>"

definition alice :: user where
  "alice = \<lparr>id_col = 1, email = ''alice@example.com'', full_name = ''Alice'',
             password = Some ''bcrypt:correct horse'', role = ''user'', permissions = JNull,
             is_active = True, failed_login_attempts = 0, last_failed_login = None,
             last_login = None, refresh_token = None\<rparr>"

definition alice_refresh :: token where
  "alice_refresh = jwt_sign 1 None (Some ''refresh'') 1 ''s3cret'' 604800"

section \<open>Auxiliary facts\<close>

declare parsePermissions.simps [simp del]

lemmas fixture_defs = test_env_def test_decode_def alice_def alice_refresh_def comparePassword_def

lemmas token_defs = jwt_sign_def jwt_verify_def generateToken_def generateRefreshToken_def
  verifyRefreshToken_def validateUserId_def

subsection \<open>Sets of permissions\<close>

lemma set_Set_add: "set (Set_add acc x) = insert x (set acc)"
  by (auto simp: Set_add_def list_ex_iff)

lemma set_foldl_Set_add: "set (foldl Set_add acc xs) = set acc \<union> set xs"
  by (induction xs arbitrary: acc) (simp_all add: set_Set_add)

lemma set_new_Set: "set (new_Set xs) = set xs"
  by (simp add: new_Set_def set_foldl_Set_add)

lemma distinct_Set_add:
  "distinct acc \<Longrightarrow> primitive x \<Longrightarrow> \<forall>y\<in>set acc. primitive y \<Longrightarrow> distinct (Set_add acc x)"
  by (auto simp: Set_add_def list_ex_iff)

lemma distinct_foldl_Set_add:
  "distinct acc \<Longrightarrow> \<forall>y\<in>set acc. primitive y \<Longrightarrow> \<forall>x\<in>set xs. primitive x \<Longrightarrow>
     distinct (foldl Set_add acc xs)"
proof (induction xs arbitrary: acc)
  case Nil
  then show ?case by simp
next
  case (Cons x xs)
  have "distinct (Set_add acc x)"
    using Cons.prems by (simp add: distinct_Set_add)
  moreover have "\<forall>y\<in>set (Set_add acc x). primitive y"
    using Cons.prems by (simp add: set_Set_add)
  ultimately show ?case
    using Cons.IH Cons.prems by simp
qed

lemma distinct_new_Set: "\<forall>x\<in>set xs. primitive x \<Longrightarrow> distinct (new_Set xs)"
  by (simp add: new_Set_def distinct_foldl_Set_add)

lemma foldl_Set_add_distinct: "distinct (acc @ xs) \<Longrightarrow> foldl Set_add acc xs = acc @ xs"
proof (induction xs arbitrary: acc)
  case Nil
  then show ?case by simp
next
  case (Cons x xs)
  have "Set_add acc x = acc @ [x]"
    using Cons.prems by (auto simp: Set_add_def list_ex_iff)
  moreover have "distinct ((acc @ [x]) @ xs)"
    using Cons.prems by simp
  ultimately show ?case
    using Cons.IH [of "acc @ [x]"] by simp
qed

lemma new_Set_distinct: "distinct xs \<Longrightarrow> new_Set xs = xs"
  by (simp add: new_Set_def foldl_Set_add_distinct)

lemma getPermissionsForRole_cases:
  "getPermissionsForRole r = PermissionList ps \<Longrightarrow>
   ps \<in> {user_permissions, content_manager_permissions, community_manager_permissions,
         user_support_permissions, super_admin_permissions}"
  by (auto simp: getPermissionsForRole_def ROLE_PERMISSIONS_def split: if_splits)

lemma distinct_role_tables:
  "distinct user_permissions" "distinct content_manager_permissions"
  "distinct community_manager_permissions" "distinct user_support_permissions"
  "distinct super_admin_permissions"
  by (simp_all add: user_permissions_def content_manager_permissions_def
      community_manager_permissions_def user_support_permissions_def
      super_admin_permissions_def)

lemma distinct_getPermissionsForRole:
  "getPermissionsForRole r = PermissionList ps \<Longrightarrow> distinct ps"
  using getPermissionsForRole_cases [of r ps] distinct_role_tables by auto

lemma full_access_not_role:
  "getPermissionsForRole r = PermissionList ps \<Longrightarrow> ''system:full_access'' \<notin> set ps"
  using getPermissionsForRole_cases [of r ps]
  by (auto simp: user_permissions_def content_manager_permissions_def
      community_manager_permissions_def user_support_permissions_def
      super_admin_permissions_def)

lemma getPermissionsForRole_inherited:
  "r \<in> set Object_prototype_keys \<Longrightarrow> getPermissionsForRole r = PrototypeMember r"
  by (auto simp: getPermissionsForRole_def ROLE_PERMISSIONS_def Object_prototype_keys_def)

text \<open>
  For a role of the table, and for an unknown role that names no inherited member, the
  resolved permissions are the role's permissions together with the parsed overrides, as
  a set, and without repetition when the overrides are primitive values.
\<close>

lemma getUserPermissions_own_role:
  assumes "getPermissionsForRole r = PermissionList ps"
  shows "\<exists>xs. getUserPermissions decode r stored = Inr (PermissionArray xs)
           \<and> set xs = JStr ` set ps \<union> set (parsePermissions decode stored)
           \<and> ((\<forall>x\<in>set (parsePermissions decode stored). primitive x) \<longrightarrow> distinct xs)"
proof (cases "falsy stored")
  case True
  have "distinct (map JStr ps)"
    using distinct_getPermissionsForRole [OF assms] by (simp add: distinct_map inj_on_def)
  then show ?thesis
    using True assms by (simp add: getUserPermissions_def parsePermissions.simps)
next
  case False
  have d: "(\<forall>x\<in>set (parsePermissions decode stored). primitive x) \<longrightarrow>
      distinct (new_Set (map JStr ps @ parsePermissions decode stored))"
  proof
    assume "\<forall>x\<in>set (parsePermissions decode stored). primitive x"
    then have "\<forall>x\<in>set (map JStr ps @ parsePermissions decode stored). primitive x"
      by auto
    then show "distinct (new_Set (map JStr ps @ parsePermissions decode stored))"
      by (rule distinct_new_Set)
  qed
  show ?thesis
    using False assms d by (simp add: getUserPermissions_def Let_def set_new_Set)
qed

text \<open>
  For a role that names an inherited member of the table object the lookup returns that
  member, and resolving it with stored overrides throws.
\<close>

lemma getUserPermissions_inherited:
  assumes "r \<in> set Object_prototype_keys" and "\<not> falsy stored"
  shows "getUserPermissions decode r stored = Inl TypeError"
  using assms getPermissionsForRole_inherited [OF assms(1)]
  by (simp add: getUserPermissions_def Let_def)

lemma parse_falsy: "falsy v \<Longrightarrow> parsePermissions d v = []"
  by (simp add: parsePermissions.simps)

lemma parse_arr: "parsePermissions d (JArr xs) = map normalize_all xs"
  by (simp add: parsePermissions.simps)

lemma parse_all_string:
  "decode ''all'' = None \<Longrightarrow> parsePermissions decode (JStr ''all'') = [JStr ''system:full_access'']"
  by (simp add: parsePermissions.simps JSON_parse_def legacy_string_def)

text \<open>
  A stored string that is not JSON and contains a comma is split at the commas and the
  pieces are trimmed; nothing else is done to them.
\<close>

lemma parse_comma_separated:
  assumes "decode s = None" and "s \<noteq> ''all''" and "includes_comma s"
  shows "parsePermissions decode (JStr s) = map (\<lambda>p. JStr (trim p)) (split_on CHR '','' s)"
proof -
  have "s \<noteq> []"
    using assms(3) by (auto simp: includes_comma_def)
  then show ?thesis
    using assms by (simp add: parsePermissions.simps JSON_parse_def legacy_string_def)
qed

subsection \<open>Rows and queries\<close>

lemma ceil_div_pos: "0 < x \<Longrightarrow> 0 < ceil_div x 1000"
  unfolding ceil_div_def by linarith

lemma div_lt_1000: "(x::int) < y * 1000 \<Longrightarrow> x div 1000 < y"
  by simp

lemma le_div_1000: "y * 1000 \<le> (x::int) \<Longrightarrow> y \<le> x div 1000"
  by simp

lemma filter_head: "filter P xs = y # ys \<Longrightarrow> P y \<and> y \<in> set xs"
  by (auto dest: filter_eq_ConsD)

lemma no_match_after_rotation:
  "p \<noteq> Some T \<Longrightarrow>
   filter (\<lambda>u. id_col u = i \<and> refresh_token u = Some T)
     (update_where_id i (\<lambda>u. u\<lparr>refresh_token := p\<rparr>) us) = []"
  unfolding update_where_id_def by (induction us) simp_all

lemma email_after_login: "email (after_login user sqlnow r u) = email u"
  by (simp add: after_login_def)

lemma filter_email_after_login:
  "filter (\<lambda>u. P (email u)) (map (after_login user sqlnow r) us)
     = map (after_login user sqlnow r) (filter (\<lambda>u. P (email u)) us)"
  by (simp add: filter_map comp_def email_after_login)

subsection \<open>The login handler on its success path\<close>

lemma login_success:
  assumes "filter (\<lambda>u. email_matches E req_email (email u)) users = user # rest"
      and "\<not> falsy req_email" and "\<not> falsy req_password"
      and "0 < id_col user" and "role user \<noteq> []" and "is_active user"
      and "unlocked user now"
      and "comparePassword E req_password (password user) = Inr True"
  shows "login_handler E req_email req_password now sqlnow users
     = (LoginSuccessful
          (jwt_sign (id_col user) (Some (role user)) None (now div 1000) (JWT_SECRET E)
             (JWT_EXPIRES_IN E))
          (jwt_sign (id_col user) None (Some ''refresh'') (now div 1000) (JWT_SECRET E)
             (REFRESH_TOKEN_EXPIRES_IN E))
          (UserData (id_col user) (email user) (full_name user) (role user)
             (parsePermissions (JSON_decode E) (permissions user))),
        map (after_login user sqlnow
               (jwt_sign (id_col user) None (Some ''refresh'') (now div 1000) (JWT_SECRET E)
                  (REFRESH_TOKEN_EXPIRES_IN E))) users,
        1)"
proof -
  have m: "\<And>r. update_where_id (id_col user) (\<lambda>u. u\<lparr>refresh_token := Some r\<rparr>)
          (update_where_id (id_col user)
             (\<lambda>u. u\<lparr>failed_login_attempts := 0, last_login := Some sqlnow\<rparr>)
             (if failed_login_attempts user \<ge> 5
              then update_where_id (id_col user) (\<lambda>u. u\<lparr>failed_login_attempts := 0\<rparr>) users
              else users))
        = map (after_login user sqlnow r) users"
    by (auto simp: update_where_id_def after_login_def)
  show ?thesis
    using assms
    by (simp add: login_handler_def Let_def generateToken_def generateRefreshToken_def
        validateUserId_def unlocked_def m)
qed

text \<open>A login request that the rate limiter admits is answered by the handler.\<close>

lemma login_route_admitted:
  assumes "fst (rateLimit 5 (15 * 60 * 1000) ip now (rateLimitStore S)) = None"
  shows "fst (login_route E ip req_email req_password now sqlnow S)
           = fst (login_handler E req_email req_password now sqlnow (users_table S))"
proof (cases "rateLimit 5 (15 * 60 * 1000) ip now (rateLimitStore S)")
  case (Pair limited store')
  then show ?thesis
    using assms by (simp add: login_route_def split: prod.splits)
qed

subsection \<open>The refresh handler\<close>

lemma verifyRefreshToken_Inr:
  "verifyRefreshToken E T now = Inr d \<Longrightarrow> T = JWT (JWT_SECRET E) d \<and> 0 < userId d"
  by (auto simp: verifyRefreshToken_def jwt_verify_def validateUserId_def
      split: if_splits token.splits sum.splits)

lemma refresh_handler_no_match:
  assumes "\<And>d. verifyRefreshToken E T now = Inr d \<Longrightarrow>
             filter (\<lambda>u. id_col u = userId d \<and> refresh_token u = Some T) us = []"
      and "T \<noteq> Malformed []"
  shows "refresh_handler E T now us = (invalid_refresh_token, us)"
  using assms by (simp add: refresh_handler_def split: sum.splits)

lemma refresh_success_table:
  assumes "refresh_handler E T now users = (TokenRefreshed a' T', users')"
  shows "\<exists>d. T = JWT (JWT_SECRET E) d \<and>
             users' = update_where_id (userId d) (\<lambda>u. u\<lparr>refresh_token := Some T'\<rparr>) users"
proof (cases "verifyRefreshToken E T now")
  case (Inl e)
  then show ?thesis
    using assms by (simp add: refresh_handler_def invalid_refresh_token_def split: if_splits)
next
  case (Inr d)
  note d = verifyRefreshToken_Inr [OF Inr]
  show ?thesis
  proof (cases "filter (\<lambda>u. id_col u = userId d \<and> refresh_token u = Some T) users")
    case Nil
    then show ?thesis
      using assms Inr d
      by (simp add: refresh_handler_def invalid_refresh_token_def split: if_splits)
  next
    case (Cons user rest)
    have i: "id_col user = userId d"
      using filter_head [OF Cons] by simp
    have "users' = update_where_id (userId d) (\<lambda>u. u\<lparr>refresh_token := Some T'\<rparr>) users"
      using assms Inr d Cons i
      by (auto simp: refresh_handler_def invalid_refresh_token_def generateToken_def
          generateRefreshToken_def validateUserId_def split: if_splits)
    then show ?thesis
      using d by blast
  qed
qed

text \<open>
  A refresh in the second in which the presented token was issued signs the same payload
  again: the new refresh token is the presented one, which therefore stays current.
\<close>

lemma same_second_rotation_reissues_token:
  "refresh_handler test_env alice_refresh 1999 [alice\<lparr>refresh_token := Some alice_refresh\<rparr>]
     = (TokenRefreshed (jwt_sign 1 (Some ''user'') None 1 ''s3cret'' 86400) alice_refresh,
        [alice\<lparr>refresh_token := Some alice_refresh\<rparr>])"
  by (simp add: refresh_handler_def update_where_id_def fixture_defs token_defs)

subsection \<open>authenticateToken\<close>

lemma authenticateToken_logout:
  "authenticateToken E tok now (snd (logout_handler uid users)) = authenticateToken E tok now users"
proof -
  let ?g = "\<lambda>u. if id_col u = uid then u\<lparr>refresh_token := None\<rparr> else u"
  have f: "\<And>i. filter (\<lambda>u. id_col u = i \<and> is_active u) (map ?g users)
       = map ?g (filter (\<lambda>u. id_col u = i \<and> is_active u) users)"
    by (simp add: filter_map comp_def if_distrib [of id_col] if_distrib [of is_active]
        cong: if_cong)
  show ?thesis
    by (simp add: authenticateToken_def logout_handler_def update_where_id_def f
        split: sum.splits jwt_error.splits list.splits)
qed

lemma authenticateToken_after_login:
  assumes "filter (\<lambda>u. email_matches E req_email (email u)) users = user # rest"
      and "0 < id_col user" and "is_active user"
      and "now' < (now div 1000 + JWT_EXPIRES_IN E) * 1000"
  shows "\<exists>em fn rl ps ll. authenticateToken E
           (jwt_sign (id_col user) (Some (role user)) None (now div 1000) (JWT_SECRET E)
              (JWT_EXPIRES_IN E)) now' (map (after_login user sqlnow r) users)
         = Inr (ReqUser (id_col user) em fn rl ps ll)"
proof -
  have "user \<in> set users"
    using filter_head [OF assms(1)] by simp
  then have "after_login user sqlnow r user \<in> set (map (after_login user sqlnow r) users)"
    by simp
  moreover have "id_col (after_login user sqlnow r user) = id_col user
      \<and> is_active (after_login user sqlnow r user)"
    using assms(3) by (simp add: after_login_def)
  ultimately have ne: "filter (\<lambda>u. id_col u = id_col user \<and> is_active u)
        (map (after_login user sqlnow r) users) \<noteq> []"
    unfolding filter_empty_conv by blast
  then obtain x xs where x: "filter (\<lambda>u. id_col u = id_col user \<and> is_active u)
        (map (after_login user sqlnow r) users) = x # xs"
    by (cases "filter (\<lambda>u. id_col u = id_col user \<and> is_active u)
        (map (after_login user sqlnow r) users)") auto
  have a: "is_active x" "id_col x = id_col user"
    using filter_head [OF x] by simp_all
  have t: "\<not> (now div 1000 + JWT_EXPIRES_IN E \<le> now' div 1000)"
    using div_lt_1000 [OF assms(4)] by simp
  show ?thesis
    using assms(2,4) x a t
    by (simp add: authenticateToken_def jwt_sign_def jwt_verify_def validateUserId_def)
qed

lemma authenticateToken_expired:
  assumes "(now div 1000 + JWT_EXPIRES_IN E) * 1000 \<le> now'"
  shows "authenticateToken E
           (jwt_sign uid rl None (now div 1000) (JWT_SECRET E) (JWT_EXPIRES_IN E)) now' users
         = Inl (ErrorResponse 401 ''Token expired'' ''TOKEN_EXPIRED'' None)"
proof -
  have "now div 1000 + JWT_EXPIRES_IN E \<le> now' div 1000"
    using le_div_1000 [OF assms] .
  then show ?thesis
    by (simp add: authenticateToken_def jwt_sign_def jwt_verify_def)
qed

section \<open>Refresh-token rotation\<close>

text \<open>
  C1, as stated: after a successful refresh with a token, presenting that token again fails
  with an error of its own, different from the one for an expired token. On the code the
  second presentation is answered with the same \<open>INVALID_REFRESH_TOKEN\<close> response that
  an expired token receives: below, the token that was rotated out at 5000 is presented at
  6000, and the token that replaced it is presented after its lifetime.
\<close>

theorem refresh_reuse_error_not_distinct:
  "fst (refresh_handler test_env alice_refresh 5000 [alice\<lparr>refresh_token := Some alice_refresh\<rparr>])
     = TokenRefreshed (jwt_sign 1 (Some ''user'') None 5 ''s3cret'' 86400)
         (jwt_sign 1 None (Some ''refresh'') 5 ''s3cret'' 604800)
   \<and> fst (refresh_handler test_env alice_refresh 6000
           (snd (refresh_handler test_env alice_refresh 5000
                   [alice\<lparr>refresh_token := Some alice_refresh\<rparr>])))
     = ErrorResponse 401 ''Invalid refresh token'' ''INVALID_REFRESH_TOKEN'' None
   \<and> fst (refresh_handler test_env (jwt_sign 1 None (Some ''refresh'') 5 ''s3cret'' 604800)
           604805000
           (snd (refresh_handler test_env alice_refresh 5000
                   [alice\<lparr>refresh_token := Some alice_refresh\<rparr>])))
     = ErrorResponse 401 ''Invalid refresh token'' ''INVALID_REFRESH_TOKEN'' None"
  by (simp add: refresh_handler_def invalid_refresh_token_def update_where_id_def
      fixture_defs token_defs)

text \<open>
  C1, amended: when a refresh with token \<open>T\<close> succeeds and stores a new refresh token
  different from \<open>T\<close>, every later refresh that presents \<open>T\<close> to the resulting table, at
  any time, is answered with the general 401 \<open>INVALID_REFRESH_TOKEN\<close> response, issues
  no token pair and leaves the table as it is.
\<close>

theorem refresh_rotation_single_use:
  assumes "refresh_handler E T now users = (TokenRefreshed a' T', users')"
      and "T' \<noteq> T"
  shows "refresh_handler E T later users' = (invalid_refresh_token, users')"
proof -
  from refresh_success_table [OF assms(1)] obtain d where
    T: "T = JWT (JWT_SECRET E) d" and
    u: "users' = update_where_id (userId d) (\<lambda>u. u\<lparr>refresh_token := Some T'\<rparr>) users"
    by blast
  show ?thesis
  proof (rule refresh_handler_no_match)
    fix d'
    assume "verifyRefreshToken E T later = Inr d'"
    then have "JWT (JWT_SECRET E) d = JWT (JWT_SECRET E) d'"
      using verifyRefreshToken_Inr [of E T later d'] T by simp
    then have "d' = d"
      by simp
    then show "filter (\<lambda>u. id_col u = userId d' \<and> refresh_token u = Some T) users' = []"
      using assms(2) by (simp add: u no_match_after_rotation)
  next
    show "T \<noteq> Malformed []"
      using T by simp
  qed
qed

theorem refresh_rotation_single_use_witness:
  "refresh_handler test_env alice_refresh 5000 [alice\<lparr>refresh_token := Some alice_refresh\<rparr>]
     = (TokenRefreshed (jwt_sign 1 (Some ''user'') None 5 ''s3cret'' 86400)
          (jwt_sign 1 None (Some ''refresh'') 5 ''s3cret'' 604800),
        [alice\<lparr>refresh_token := Some (jwt_sign 1 None (Some ''refresh'') 5 ''s3cret'' 604800)\<rparr>])
   \<and> jwt_sign 1 None (Some ''refresh'') 5 ''s3cret'' 604800 \<noteq> alice_refresh
   \<and> refresh_handler test_env alice_refresh 6000
       [alice\<lparr>refresh_token := Some (jwt_sign 1 None (Some ''refresh'') 5 ''s3cret'' 604800)\<rparr>]
     = (invalid_refresh_token,
        [alice\<lparr>refresh_token := Some (jwt_sign 1 None (Some ''refresh'') 5 ''s3cret'' 604800)\<rparr>])"
proof -
  have h: "refresh_handler test_env alice_refresh 5000
             [alice\<lparr>refresh_token := Some alice_refresh\<rparr>]
     = (TokenRefreshed (jwt_sign 1 (Some ''user'') None 5 ''s3cret'' 86400)
          (jwt_sign 1 None (Some ''refresh'') 5 ''s3cret'' 604800),
        [alice\<lparr>refresh_token := Some (jwt_sign 1 None (Some ''refresh'') 5 ''s3cret'' 604800)\<rparr>])"
    by (simp add: refresh_handler_def update_where_id_def fixture_defs token_defs)
  have n: "jwt_sign 1 None (Some ''refresh'') 5 ''s3cret'' 604800 \<noteq> alice_refresh"
    by (simp add: fixture_defs token_defs)
  show ?thesis
    using h n refresh_rotation_single_use [OF h n, of 6000] by simp
qed

section \<open>Lockout\<close>

text \<open>
  C2: once five failed attempts are recorded for an account and the last of them is less
  than fifteen minutes old, the login handler answers the next attempt for that account
  with \<open>ACCOUNT_LOCKED\<close> and a positive \<open>retryAfter\<close>, whatever the presented password
  is and whatever \<open>comparePassword\<close> would say: the password is not compared, and the
  table is not written.
\<close>

theorem lockout_before_credential_check:
  assumes "filter (\<lambda>u. email_matches E req_email (email u)) users = user # rest"
      and "\<not> falsy req_email" and "\<not> falsy req_password"
      and "id_col user \<noteq> 0" and "role user \<noteq> []" and "is_active user"
      and "failed_login_attempts user \<ge> 5"
      and "last_failed_login user = Some t" and "now - t < 15 * 60 * 1000"
  shows "\<exists>retryAfter. 0 < retryAfter \<and>
           login_handler E req_email req_password now sqlnow users
             = (ErrorResponse 429 ''Account temporarily locked due to too many failed attempts''
                  ''ACCOUNT_LOCKED'' (Some retryAfter), users, 0)"
proof -
  have "0 < ceil_div (15 * 60 * 1000 - (now - t)) 1000"
    using assms(9) by (intro ceil_div_pos) simp
  then show ?thesis
    using assms by (simp add: login_handler_def Let_def)
qed

theorem lockout_before_credential_check_witness:
  "comparePassword test_env (JStr ''correct horse'') (password alice) = Inr True
   \<and> login_sequence test_env (JStr ''alice@example.com'')
       [(JStr ''wrong'', 1000), (JStr ''wrong'', 2000), (JStr ''wrong'', 3000), (JStr ''wrong'', 4000),
        (JStr ''wrong'', 5000)] [alice]
     = [alice\<lparr>failed_login_attempts := 5, last_failed_login := Some 5000\<rparr>]
   \<and> (\<exists>retryAfter. 0 < retryAfter \<and>
        login_handler test_env (JStr ''alice@example.com'') (JStr ''correct horse'') 6000 6000
          [alice\<lparr>failed_login_attempts := 5, last_failed_login := Some 5000\<rparr>]
        = (ErrorResponse 429 ''Account temporarily locked due to too many failed attempts''
             ''ACCOUNT_LOCKED'' (Some retryAfter),
           [alice\<lparr>failed_login_attempts := 5, last_failed_login := Some 5000\<rparr>], 0))"
proof -
  have s: "login_sequence test_env (JStr ''alice@example.com'')
       [(JStr ''wrong'', 1000), (JStr ''wrong'', 2000), (JStr ''wrong'', 3000), (JStr ''wrong'', 4000),
        (JStr ''wrong'', 5000)] [alice]
     = [alice\<lparr>failed_login_attempts := 5, last_failed_login := Some 5000\<rparr>]"
    by (simp add: login_handler_def Let_def update_where_id_def invalid_credentials_def
        fixture_defs)
  have c: "comparePassword test_env (JStr ''correct horse'') (password alice) = Inr True"
    by (simp add: fixture_defs)
  show ?thesis
    using s c lockout_before_credential_check
      [where E = test_env and req_email = "JStr ''alice@example.com''"
         and users = "[alice\<lparr>failed_login_attempts := 5, last_failed_login := Some 5000\<rparr>]"
         and user = "alice\<lparr>failed_login_attempts := 5, last_failed_login := Some 5000\<rparr>"
         and rest = "[]" and req_password = "JStr ''correct horse''"
         and t = 5000 and now = 6000 and sqlnow = 6000]
    by (simp add: alice_def test_env_def)
qed

section \<open>Tokens issued by a login\<close>

text \<open>
  C3, as stated: the access token of a successful login embeds the role and the resolved
  permission set of the account. On the code two accounts that differ only in their
  permission overrides, and so in their resolved permission sets, receive the same access
  token: its payload is the user id, the role and the two times.
\<close>

theorem access_token_omits_permissions:
  "fst (login_handler test_env (JStr ''alice@example.com'') (JStr ''correct horse'') 1000 1000 [alice])
     = LoginSuccessful
         (JWT ''s3cret'' \<lparr>userId = 1, role_claim = Some ''user'', type_claim = None,
                          iat_claim = 1, exp_claim = 86401\<rparr>)
         (JWT ''s3cret'' \<lparr>userId = 1, role_claim = None, type_claim = Some ''refresh'',
                          iat_claim = 1, exp_claim = 604801\<rparr>)
         (UserData 1 ''alice@example.com'' ''Alice'' ''user'' [])
   \<and> fst (login_handler test_env (JStr ''alice@example.com'') (JStr ''correct horse'') 1000 1000
           [alice\<lparr>permissions := JArr [JStr ''courses:admin'']\<rparr>])
     = LoginSuccessful
         (JWT ''s3cret'' \<lparr>userId = 1, role_claim = Some ''user'', type_claim = None,
                          iat_claim = 1, exp_claim = 86401\<rparr>)
         (JWT ''s3cret'' \<lparr>userId = 1, role_claim = None, type_claim = Some ''refresh'',
                          iat_claim = 1, exp_claim = 604801\<rparr>)
         (UserData 1 ''alice@example.com'' ''Alice'' ''user'' [JStr ''courses:admin''])
   \<and> getUserPermissions (JSON_decode test_env) ''user'' (permissions alice)
     = Inr (PermissionArray (map JStr user_permissions))
   \<and> getUserPermissions (JSON_decode test_env) ''user'' (JArr [JStr ''courses:admin''])
     = Inr (PermissionArray (map JStr user_permissions @ [JStr ''courses:admin'']))"
  by (simp add: login_handler_def Let_def update_where_id_def fixture_defs token_defs
      parsePermissions.simps normalize_all_def getUserPermissions_def getPermissionsForRole_def
      ROLE_PERMISSIONS_def user_permissions_def new_Set_def Set_add_def)

text \<open>
  C3, amended: a login with correct credentials for an active, unlocked account succeeds;
  the claims of its access token are the account's id and role as of issuance, the issue
  time and the expiry (no permissions), and the refresh token it returns is the one stored
  in the account's row afterwards.
\<close>

theorem login_issues_role_token_and_stores_refresh:
  assumes "filter (\<lambda>u. email_matches E req_email (email u)) users = user # rest"
      and "\<not> falsy req_email" and "\<not> falsy req_password"
      and "0 < id_col user" and "role user \<noteq> []" and "is_active user"
      and "unlocked user now"
      and "comparePassword E req_password (password user) = Inr True"
  shows "\<exists>refreshToken userData users' user' rest'.
           login_handler E req_email req_password now sqlnow users
             = (LoginSuccessful
                  (JWT (JWT_SECRET E)
                     \<lparr>userId = id_col user, role_claim = Some (role user), type_claim = None,
                      iat_claim = now div 1000,
                      exp_claim = now div 1000 + JWT_EXPIRES_IN E\<rparr>)
                  refreshToken userData, users', 1)
         \<and> filter (\<lambda>u. email_matches E req_email (email u)) users' = user' # rest'
         \<and> id_col user' = id_col user \<and> role user' = role user
         \<and> refresh_token user' = Some refreshToken"
  using login_success [OF assms, of sqlnow] assms(1)
  by (simp add: filter_email_after_login jwt_sign_def after_login_def)

theorem login_issues_role_token_and_stores_refresh_witness:
  "\<exists>refreshToken userData users' user' rest'.
     login_handler test_env (JStr ''alice@example.com'') (JStr ''correct horse'') 1000 1000 [alice]
       = (LoginSuccessful
            (JWT (JWT_SECRET test_env)
               \<lparr>userId = id_col alice, role_claim = Some (role alice), type_claim = None,
                iat_claim = 1000 div 1000,
                exp_claim = 1000 div 1000 + JWT_EXPIRES_IN test_env\<rparr>)
            refreshToken userData, users', 1)
     \<and> filter (\<lambda>u. email_matches test_env (JStr ''alice@example.com'') (email u)) users' = user' # rest'
     \<and> id_col user' = id_col alice \<and> role user' = role alice
     \<and> refresh_token user' = Some refreshToken"
  by (rule login_issues_role_token_and_stores_refresh [where rest = "[]"])
     (simp_all add: fixture_defs unlocked_def)

section \<open>Rate limiting\<close>

text \<open>
  C4: the claim asks for one window per address and endpoint. The middleware keeps one
  record per address for all routes. A client that has made no login request at all and is
  admitted on an empty store is refused at its first login after five refresh requests
  from the same address, although the login route allows five attempts.
\<close>

theorem rate_limit_budget_shared_between_endpoints:
  "fst (login_route test_env ''10.0.0.1'' (JStr ''alice@example.com'') (JStr ''correct horse'') 5 5
          \<lparr>users_table = [alice], rateLimitStore = Map.empty\<rparr>)
     = LoginSuccessful (jwt_sign 1 (Some ''user'') None 0 ''s3cret'' 86400)
         (jwt_sign 1 None (Some ''refresh'') 0 ''s3cret'' 604800)
         (UserData 1 ''alice@example.com'' ''Alice'' ''user'' [])
   \<and> fst (login_route test_env ''10.0.0.1'' (JStr ''alice@example.com'') (JStr ''correct horse'') 5 5
          (refresh_sequence test_env ''10.0.0.1''
             [(Malformed ''x'', 0), (Malformed ''x'', 1), (Malformed ''x'', 2),
              (Malformed ''x'', 3), (Malformed ''x'', 4)]
             \<lparr>users_table = [alice], rateLimitStore = Map.empty\<rparr>))
     = ErrorResponse 429 ''Too many requests'' ''RATE_LIMIT_EXCEEDED'' (Some 900)"
  by (simp add: login_route_def refresh_route_def rateLimit_def ceil_div_def
      login_handler_def refresh_handler_def invalid_refresh_token_def Let_def
      update_where_id_def fixture_defs token_defs parsePermissions.simps)

section \<open>The failed-attempt counter\<close>

text \<open>
  C5, as stated: the counter is set to zero exactly when a login succeeds or when the
  lockout duration has passed since the last failure, and otherwise stays or grows by one.
  On the code a wrong password one hour after the last failure leaves a counter of 3 at 4,
  and takes a counter of 5 to 1.
\<close>

theorem counter_not_reset_after_window:
  "map failed_login_attempts
     (fst (snd (login_handler test_env (JStr ''alice@example.com'') (JStr ''wrong'') 3600000 3600000
                  [alice\<lparr>failed_login_attempts := 3, last_failed_login := Some 0\<rparr>]))) = [4]
   \<and> map failed_login_attempts
     (fst (snd (login_handler test_env (JStr ''alice@example.com'') (JStr ''wrong'') 3600000 3600000
                  [alice\<lparr>failed_login_attempts := 5, last_failed_login := Some 0\<rparr>]))) = [1]"
  by (simp add: login_handler_def Let_def update_where_id_def fixture_defs)

text \<open>
  C5, amended: a login request for an account rewrites only rows with that account's id,
  and the account's counter afterwards is: unchanged when the request is answered at a
  gate before the password comparison; zero when the password is accepted; when the
  password is wrong, one if the counter had reached five (the lockout has then run out and
  the counter is reset before the failure is counted), else one more than before, however
  long ago the last failure was; and when the comparison throws (the password is not a
  string, or no hash is stored), zero if the counter had reached five (the reset is
  written, no failure is counted), else unchanged.
\<close>

theorem failed_attempt_counter_transitions:
  assumes "filter (\<lambda>u. email_matches E req_email (email u)) users = user # rest"
  shows "\<exists>g. snd (login_handler E req_email req_password now sqlnow users)
              = (map g users, if rejected_before_credential_check user req_email req_password now
                              then 0 else 1)
           \<and> (\<forall>u. id_col u \<noteq> id_col user \<longrightarrow> g u = u)
           \<and> failed_login_attempts (g user) =
               (if rejected_before_credential_check user req_email req_password now
                then failed_login_attempts user
                else (case comparePassword E req_password (password user) of
                        Inl e \<Rightarrow>
                          (if failed_login_attempts user \<ge> 5 then 0
                           else failed_login_attempts user)
                      | Inr isValidPassword \<Rightarrow>
                          (if isValidPassword then 0
                           else if failed_login_attempts user \<ge> 5 then 1
                           else failed_login_attempts user + 1)))"
proof (cases "rejected_before_credential_check user req_email req_password now")
  case True
  then have "snd (login_handler E req_email req_password now sqlnow users)
      = (map (\<lambda>u. u) users, 0)"
    using assms
    by (auto simp: rejected_before_credential_check_def unlocked_def login_handler_def Let_def)
  then show ?thesis
    using True by (intro exI [of _ "\<lambda>u. u"]) simp
next
  case False
  then have ok: "\<not> falsy req_email" "\<not> falsy req_password" "id_col user \<noteq> 0" "role user \<noteq> []"
      "is_active user" "unlocked user now"
    by (simp_all add: rejected_before_credential_check_def)
  let ?reset = "\<lambda>u. if failed_login_attempts user \<ge> 5 then u\<lparr>failed_login_attempts := 0\<rparr> else u"
  let ?g0 = "\<lambda>u. if id_col u = id_col user then ?reset u else u"
  have u1: "(if failed_login_attempts user \<ge> 5
             then update_where_id (id_col user) (\<lambda>u. u\<lparr>failed_login_attempts := 0\<rparr>) users
             else users) = map ?g0 users"
    by (cases "failed_login_attempts user \<ge> 5")
       (simp_all add: update_where_id_def cong: if_cong)
  show ?thesis
  proof (cases "comparePassword E req_password (password user)")
    case thrown: (Inl e)
    have "snd (login_handler E req_email req_password now sqlnow users) = (map ?g0 users, 1)"
      using assms ok thrown
      by (simp add: login_handler_def Let_def unlocked_def u1)
    then show ?thesis
      using False thrown by (intro exI [of _ ?g0]) simp
  next
    case answered: (Inr isValidPassword)
    show ?thesis
    proof (cases isValidPassword)
      case wrong: False
      let ?g = "\<lambda>u. if id_col u = id_col user
                   then (?reset u)\<lparr>failed_login_attempts := failed_login_attempts (?reset u) + 1,
                                    last_failed_login := Some sqlnow\<rparr>
                   else u"
      have "snd (login_handler E req_email req_password now sqlnow users) = (map ?g users, 1)"
        using assms ok answered wrong
        by (simp add: login_handler_def Let_def unlocked_def u1 update_where_id_def cong: if_cong)
      then show ?thesis
        using False answered wrong by (intro exI [of _ ?g]) simp
    next
      case right: True
      then have c: "comparePassword E req_password (password user) = Inr True"
        using answered by simp
      let ?g2 = "\<lambda>u. if id_col u = id_col user
                   then u\<lparr>failed_login_attempts := 0, last_login := Some sqlnow\<rparr> else u"
      show ?thesis
      proof (cases "0 < id_col user")
        case True
        have "snd (login_handler E req_email req_password now sqlnow users)
            = (map (after_login user sqlnow
                 (jwt_sign (id_col user) None (Some ''refresh'') (now div 1000) (JWT_SECRET E)
                    (REFRESH_TOKEN_EXPIRES_IN E))) users, 1)"
          using login_success [OF assms ok(1,2) True ok(4,5,6) c, of sqlnow] by simp
        then show ?thesis
          using False c
          by (intro exI [of _ "after_login user sqlnow
                 (jwt_sign (id_col user) None (Some ''refresh'') (now div 1000) (JWT_SECRET E)
                    (REFRESH_TOKEN_EXPIRES_IN E))"]) (simp add: after_login_def)
      next
        case neg: False
        have "snd (login_handler E req_email req_password now sqlnow users) = (map ?g2 users, 1)"
          using assms ok c neg
          by (auto simp: login_handler_def Let_def unlocked_def generateToken_def
              validateUserId_def update_where_id_def)
        then show ?thesis
          using False c by (intro exI [of _ ?g2]) simp
      qed
    qed
  qed
qed

theorem failed_attempt_counter_transitions_witness:
  "\<exists>g. snd (login_handler test_env (JStr ''alice@example.com'') (JNum 123) 3600000 3600000
               [alice\<lparr>failed_login_attempts := 5, last_failed_login := Some 0\<rparr>])
          = (map g [alice\<lparr>failed_login_attempts := 5, last_failed_login := Some 0\<rparr>],
             if rejected_before_credential_check
                  (alice\<lparr>failed_login_attempts := 5, last_failed_login := Some 0\<rparr>)
                  (JStr ''alice@example.com'') (JNum 123) 3600000
             then 0 else 1)
       \<and> failed_login_attempts
           (g (alice\<lparr>failed_login_attempts := 5, last_failed_login := Some 0\<rparr>)) = 0"
proof -
  have f: "filter (\<lambda>u. email_matches test_env (JStr ''alice@example.com'') (email u))
             [alice\<lparr>failed_login_attempts := 5, last_failed_login := Some 0\<rparr>]
           = [alice\<lparr>failed_login_attempts := 5, last_failed_login := Some 0\<rparr>]"
    by (simp add: fixture_defs)
  have n: "\<not> rejected_before_credential_check
                (alice\<lparr>failed_login_attempts := 5, last_failed_login := Some 0\<rparr>)
                (JStr ''alice@example.com'') (JNum 123) 3600000"
    by (simp add: rejected_before_credential_check_def unlocked_def alice_def)
  have c: "comparePassword test_env (JNum 123)
             (password (alice\<lparr>failed_login_attempts := 5, last_failed_login := Some 0\<rparr>))
           = Inl IllegalArguments"
    by (simp add: comparePassword_def)
  from failed_attempt_counter_transitions [OF f, of "JNum 123" 3600000 3600000]
  obtain g where
    "snd (login_handler test_env (JStr ''alice@example.com'') (JNum 123) 3600000 3600000
               [alice\<lparr>failed_login_attempts := 5, last_failed_login := Some 0\<rparr>])
          = (map g [alice\<lparr>failed_login_attempts := 5, last_failed_login := Some 0\<rparr>],
             if rejected_before_credential_check
                  (alice\<lparr>failed_login_attempts := 5, last_failed_login := Some 0\<rparr>)
                  (JStr ''alice@example.com'') (JNum 123) 3600000
             then 0 else 1)"
    and "failed_login_attempts
           (g (alice\<lparr>failed_login_attempts := 5, last_failed_login := Some 0\<rparr>)) =
               (if rejected_before_credential_check
                     (alice\<lparr>failed_login_attempts := 5, last_failed_login := Some 0\<rparr>)
                     (JStr ''alice@example.com'') (JNum 123) 3600000
                then failed_login_attempts
                       (alice\<lparr>failed_login_attempts := 5, last_failed_login := Some 0\<rparr>)
                else (case comparePassword test_env (JNum 123)
                             (password (alice\<lparr>failed_login_attempts := 5,
                                              last_failed_login := Some 0\<rparr>)) of
                        Inl e \<Rightarrow>
                          (if failed_login_attempts
                                (alice\<lparr>failed_login_attempts := 5,
                                       last_failed_login := Some 0\<rparr>) \<ge> 5 then 0
                           else failed_login_attempts
                                  (alice\<lparr>failed_login_attempts := 5,
                                         last_failed_login := Some 0\<rparr>))
                      | Inr isValidPassword \<Rightarrow>
                          (if isValidPassword then 0
                           else if failed_login_attempts
                                     (alice\<lparr>failed_login_attempts := 5,
                                            last_failed_login := Some 0\<rparr>) \<ge> 5 then 1
                           else failed_login_attempts
                                  (alice\<lparr>failed_login_attempts := 5,
                                         last_failed_login := Some 0\<rparr>) + 1)))"
    by blast
  then show ?thesis
    using n c by (intro exI [of _ g]) simp
qed

section \<open>Logout\<close>

text \<open>
  C6: take a successful login and then the logout of that account. Every later refresh
  that presents the refresh token of the login is answered with the 401 error, at any
  time; the access token of the login still passes \<open>authenticateToken\<close>, as that
  account, at every time before its expiry and is refused as expired from then on, and
  \<open>authenticateToken\<close> answers every token as it did before the logout.
\<close>

theorem logout_revokes_refresh_not_access:
  assumes "filter (\<lambda>u. email_matches E req_email (email u)) users = user # rest"
      and "\<not> falsy req_email" and "\<not> falsy req_password"
      and "0 < id_col user" and "role user \<noteq> []" and "is_active user"
      and "unlocked user now"
      and "comparePassword E req_password (password user) = Inr True"
  shows "\<exists>accessToken refreshToken userData users1 users2.
           login_handler E req_email req_password now sqlnow users
             = (LoginSuccessful accessToken refreshToken userData, users1, 1)
         \<and> logout_handler (id_col user) users1 = (LogoutSuccessful, users2)
         \<and> (\<forall>now'. refresh_handler E refreshToken now' users2 = (invalid_refresh_token, users2))
         \<and> (\<forall>now'. now' < (now div 1000 + JWT_EXPIRES_IN E) * 1000 \<longrightarrow>
               (\<exists>em fn rl ps ll. authenticateToken E accessToken now' users2
                                      = Inr (ReqUser (id_col user) em fn rl ps ll)))
         \<and> (\<forall>now'. (now div 1000 + JWT_EXPIRES_IN E) * 1000 \<le> now' \<longrightarrow>
               authenticateToken E accessToken now' users2
                 = Inl (ErrorResponse 401 ''Token expired'' ''TOKEN_EXPIRED'' None))
         \<and> (\<forall>tok now'. authenticateToken E tok now' users2
                          = authenticateToken E tok now' users1)"
proof -
  let ?a = "jwt_sign (id_col user) (Some (role user)) None (now div 1000) (JWT_SECRET E)
             (JWT_EXPIRES_IN E)"
  let ?r = "jwt_sign (id_col user) None (Some ''refresh'') (now div 1000) (JWT_SECRET E)
             (REFRESH_TOKEN_EXPIRES_IN E)"
  let ?users1 = "map (after_login user sqlnow ?r) users"
  let ?users2 = "snd (logout_handler (id_col user) ?users1)"
  have l: "logout_handler (id_col user) ?users1 = (LogoutSuccessful, ?users2)"
    by (simp add: logout_handler_def)
  have r: "refresh_handler E ?r now' ?users2 = (invalid_refresh_token, ?users2)" for now'
  proof (rule refresh_handler_no_match)
    fix d
    assume "verifyRefreshToken E ?r now' = Inr d"
    then have "?r = JWT (JWT_SECRET E) d"
      using verifyRefreshToken_Inr [of E ?r now' d] by simp
    then have "userId d = id_col user"
      unfolding jwt_sign_def by (cases d) simp
    then show "filter (\<lambda>u. id_col u = userId d \<and> refresh_token u = Some ?r) ?users2 = []"
      by (simp add: logout_handler_def no_match_after_rotation)
  next
    show "?r \<noteq> Malformed []"
      by (simp add: jwt_sign_def)
  qed
  have a: "now' < (now div 1000 + JWT_EXPIRES_IN E) * 1000 \<Longrightarrow>
      \<exists>em fn rl ps ll. authenticateToken E ?a now' ?users2
                           = Inr (ReqUser (id_col user) em fn rl ps ll)" for now'
    using authenticateToken_after_login [OF assms(1,4,6), of now' now sqlnow ?r]
    by (simp add: authenticateToken_logout)
  have x: "(now div 1000 + JWT_EXPIRES_IN E) * 1000 \<le> now' \<Longrightarrow>
      authenticateToken E ?a now' ?users2
        = Inl (ErrorResponse 401 ''Token expired'' ''TOKEN_EXPIRED'' None)" for now'
    by (rule authenticateToken_expired)
  have "login_handler E req_email req_password now sqlnow users
          = (LoginSuccessful ?a ?r
               (UserData (id_col user) (email user) (full_name user) (role user)
                  (parsePermissions (JSON_decode E) (permissions user))), ?users1, 1)
      \<and> logout_handler (id_col user) ?users1 = (LogoutSuccessful, ?users2)
      \<and> (\<forall>now'. refresh_handler E ?r now' ?users2 = (invalid_refresh_token, ?users2))
      \<and> (\<forall>now'. now' < (now div 1000 + JWT_EXPIRES_IN E) * 1000 \<longrightarrow>
            (\<exists>em fn rl ps ll. authenticateToken E ?a now' ?users2
                                   = Inr (ReqUser (id_col user) em fn rl ps ll)))
      \<and> (\<forall>now'. (now div 1000 + JWT_EXPIRES_IN E) * 1000 \<le> now' \<longrightarrow>
            authenticateToken E ?a now' ?users2
              = Inl (ErrorResponse 401 ''Token expired'' ''TOKEN_EXPIRED'' None))
      \<and> (\<forall>tok now'. authenticateToken E tok now' ?users2
                       = authenticateToken E tok now' ?users1)"
    using login_success [OF assms, of sqlnow] l r a x authenticateToken_logout
    by (intro conjI allI impI) simp_all
  then show ?thesis
    by blast
qed

theorem logout_revokes_refresh_not_access_witness:
  "\<exists>accessToken refreshToken userData users1 users2.
     login_handler test_env (JStr ''alice@example.com'') (JStr ''correct horse'') 1000 1000 [alice]
       = (LoginSuccessful accessToken refreshToken userData, users1, 1)
   \<and> logout_handler (id_col alice) users1 = (LogoutSuccessful, users2)
   \<and> (\<forall>now'. refresh_handler test_env refreshToken now' users2 = (invalid_refresh_token, users2))
   \<and> (\<forall>now'. now' < (1000 div 1000 + JWT_EXPIRES_IN test_env) * 1000 \<longrightarrow>
         (\<exists>em fn rl ps ll. authenticateToken test_env accessToken now' users2
                                = Inr (ReqUser (id_col alice) em fn rl ps ll)))
   \<and> (\<forall>now'. (1000 div 1000 + JWT_EXPIRES_IN test_env) * 1000 \<le> now' \<longrightarrow>
         authenticateToken test_env accessToken now' users2
           = Inl (ErrorResponse 401 ''Token expired'' ''TOKEN_EXPIRED'' None))
   \<and> (\<forall>tok now'. authenticateToken test_env tok now' users2
                    = authenticateToken test_env tok now' users1)"
  by (rule logout_revokes_refresh_not_access [where rest = "[]"])
     (simp_all add: fixture_defs unlocked_def)

section \<open>Invalid credentials\<close>

text \<open>
  When the comparison answers, the response to a login whose address matches no row and
  the response to a login that reaches the password comparison of an existing account with
  a wrong password are the same value.
\<close>

lemma invalid_credentials_when_compared:
  assumes "filter (\<lambda>u. email_matches E email1 (email u)) users1 = []"
      and "\<not> falsy email1" and "\<not> falsy password1"
      and "filter (\<lambda>u. email_matches E email2 (email u)) users2 = user # rest"
      and "\<not> falsy email2" and "\<not> falsy password2"
      and "id_col user \<noteq> 0" and "role user \<noteq> []" and "is_active user"
      and "unlocked user now2"
      and "comparePassword E password2 (password user) = Inr False"
  shows "fst (login_handler E email1 password1 now1 sqlnow1 users1)
           = fst (login_handler E email2 password2 now2 sqlnow2 users2)
       \<and> fst (login_handler E email1 password1 now1 sqlnow1 users1)
           = ErrorResponse 401 ''Invalid credentials'' ''INVALID_CREDENTIALS'' None"
  using assms by (simp add: login_handler_def Let_def invalid_credentials_def unlocked_def)

text \<open>
  C7: the claim asks for the same outcome whether the address is unknown or the secret is
  wrong. The handler never checks that the password is a string. With the JSON number 123
  as the password, a login for an address that matches no row is answered with 401
  \<open>INVALID_CREDENTIALS\<close>, and a login for the existing, active, unlocked account is
  answered with 500 \<open>INTERNAL_ERROR\<close>: \<open>comparePassword\<close> throws and the outer
  \<open>catch\<close> answers. The two outcomes differ and tell whether the address exists.
\<close>

theorem wrong_secret_outcome_depends_on_account:
  "login_handler test_env (JStr ''nobody@example.com'') (JNum 123) 1000 1000 [alice]
     = (ErrorResponse 401 ''Invalid credentials'' ''INVALID_CREDENTIALS'' None, [alice], 0)
   \<and> login_handler test_env (JStr ''alice@example.com'') (JNum 123) 1000 1000 [alice]
     = (ErrorResponse 500 ''Internal server error'' ''INTERNAL_ERROR'' None, [alice], 1)"
  by (simp add: login_handler_def Let_def invalid_credentials_def fixture_defs)

text \<open>
  C8, as stated: a login whose address matches no row still compares the password against
  a dummy hash before it answers. On the code such a login is answered without any call
  of \<open>comparePassword\<close>.
\<close>

theorem unknown_identifier_no_hash_comparison:
  "login_handler test_env (JStr ''nobody@example.com'') (JStr ''wrong'') 1000 1000 [alice]
     = (ErrorResponse 401 ''Invalid credentials'' ''INVALID_CREDENTIALS'' None, [alice], 0)"
  by (simp add: login_handler_def invalid_credentials_def fixture_defs)

text \<open>
  C8, amended: a login whose address matches no row makes no password comparison and
  writes nothing, and with both credentials present it is answered with
  \<open>INVALID_CREDENTIALS\<close>; a login for an existing account makes exactly one comparison
  when it passes the gates in front of the comparison, and none otherwise.
\<close>

theorem hash_comparison_only_at_credential_check:
  "(filter (\<lambda>u. email_matches E req_email (email u)) users = [] \<longrightarrow>
      snd (login_handler E req_email req_password now sqlnow users) = (users, 0))
   \<and> (\<not> falsy req_email \<and> \<not> falsy req_password \<and> filter (\<lambda>u. email_matches E req_email (email u)) users = [] \<longrightarrow>
      login_handler E req_email req_password now sqlnow users = (invalid_credentials, users, 0))
   \<and> (\<forall>user rest. filter (\<lambda>u. email_matches E req_email (email u)) users = user # rest \<longrightarrow>
        snd (snd (login_handler E req_email req_password now sqlnow users))
          = (if rejected_before_credential_check user req_email req_password now then 0 else 1))"
proof (intro conjI impI allI)
  assume "filter (\<lambda>u. email_matches E req_email (email u)) users = []"
  then show "snd (login_handler E req_email req_password now sqlnow users) = (users, 0)"
    by (simp add: login_handler_def)
next
  assume "\<not> falsy req_email \<and> \<not> falsy req_password \<and> filter (\<lambda>u. email_matches E req_email (email u)) users = []"
  then show "login_handler E req_email req_password now sqlnow users
      = (invalid_credentials, users, 0)"
    by (simp add: login_handler_def)
next
  fix user rest
  assume f: "filter (\<lambda>u. email_matches E req_email (email u)) users = user # rest"
  show "snd (snd (login_handler E req_email req_password now sqlnow users))
          = (if rejected_before_credential_check user req_email req_password now then 0 else 1)"
    using f
    by (simp add: login_handler_def Let_def rejected_before_credential_check_def unlocked_def
        split: sum.splits)
qed

theorem hash_comparison_only_at_credential_check_witness:
  "filter (\<lambda>u. email_matches test_env (JStr ''nobody@example.com'') (email u)) [alice] = []
   \<and> login_handler test_env (JStr ''nobody@example.com'') (JStr ''wrong'') 1000 1000 [alice]
       = (invalid_credentials, [alice], 0)
   \<and> filter (\<lambda>u. email_matches test_env (JStr ''alice@example.com'') (email u)) [alice] = [alice]
   \<and> \<not> rejected_before_credential_check alice (JStr ''alice@example.com'') (JStr ''wrong'') 1000
   \<and> snd (snd (login_handler test_env (JStr ''alice@example.com'') (JStr ''wrong'') 1000 1000 [alice])) = 1"
proof -
  have a: "filter (\<lambda>u. email_matches test_env (JStr ''nobody@example.com'') (email u)) [alice] = []"
    by (simp add: alice_def test_env_def)
  have b: "filter (\<lambda>u. email_matches test_env (JStr ''alice@example.com'') (email u)) [alice] = [alice]"
    by (simp add: alice_def test_env_def)
  have c: "\<not> rejected_before_credential_check alice (JStr ''alice@example.com'') (JStr ''wrong'') 1000"
    by (simp add: rejected_before_credential_check_def unlocked_def alice_def)
  show ?thesis
    using a b c
      hash_comparison_only_at_credential_check
        [where E = test_env and req_email = "JStr ''nobody@example.com''" and users = "[alice]"
           and req_password = "JStr ''wrong''" and now = 1000 and sqlnow = 1000]
      hash_comparison_only_at_credential_check
        [where E = test_env and req_email = "JStr ''alice@example.com''" and users = "[alice]"
           and req_password = "JStr ''wrong''" and now = 1000 and sqlnow = 1000]
    by simp
qed

section \<open>Permission resolution\<close>

text \<open>
  C9: the claim asks that the resolved permissions are the role's permissions together
  with the stored overrides and that the override \<open>all\<close> becomes the one sentinel
  \<open>system:full_access\<close>. The parser replaces the word in an array element, in a whole
  stored string (plain or JSON-encoded) and in a single object value, but not in the
  pieces of a comma-separated string nor in the values of an object with several members:
  there the resolved permissions keep the literal \<open>all\<close> and hold no sentinel. And for
  a role that names an inherited member of the role table, resolving with stored
  overrides throws instead of falling back to the permissions of \<open>user\<close>.
\<close>

theorem all_kept_in_comma_separated_overrides:
  "getUserPermissions test_decode ''user'' (JStr ''all,courses:admin'')
     = Inr (PermissionArray (map JStr user_permissions @ [JStr ''all'', JStr ''courses:admin'']))
   \<and> getUserPermissions test_decode ''user''
       (JObj [(''0'', JStr ''all''), (''1'', JStr ''courses:admin'')])
     = Inr (PermissionArray (map JStr user_permissions @ [JStr ''all'', JStr ''courses:admin'']))
   \<and> getUserPermissions test_decode ''user'' (JArr [JStr ''all'', JStr ''courses:admin''])
     = Inr (PermissionArray
              (map JStr user_permissions @ [JStr ''system:full_access'', JStr ''courses:admin'']))
   \<and> getUserPermissions test_decode ''user'' (JStr ''all'')
     = Inr (PermissionArray (map JStr user_permissions @ [JStr ''system:full_access'']))
   \<and> getUserPermissions test_decode ''user'' (JStr (CHR 0x22 # ''all'' @ [CHR 0x22]))
     = Inr (PermissionArray (map JStr user_permissions @ [JStr ''system:full_access'']))
   \<and> getUserPermissions test_decode ''user'' (JObj [(''0'', JStr ''all'')])
     = Inr (PermissionArray (map JStr user_permissions @ [JStr ''system:full_access'']))
   \<and> getUserPermissions test_decode ''user'' (JStr ''[]'')
     = Inr (PermissionArray (map JStr user_permissions))
   \<and> getUserPermissions test_decode ''constructor'' (JArr [JStr ''courses:admin''])
     = Inl TypeError"
  by (simp add: getUserPermissions_def getPermissionsForRole_def ROLE_PERMISSIONS_def
      Object_prototype_keys_def user_permissions_def Let_def new_Set_def Set_add_def
      parsePermissions.simps JSON_parse_def test_decode_def legacy_string_def object_values_def
      normalize_all_def includes_comma_def trim_def is_ws_def)

section \<open>Suspended accounts\<close>

text \<open>
  C10: a login for an existing account whose \<open>is_active\<close> flag is off is answered with
  403 \<open>ACCOUNT_SUSPENDED\<close>, whatever the counter, the time of the last failure and the
  presented password are; the password is not compared and the table, so the counter and
  the stored refresh token, is unchanged.
\<close>

theorem inactive_account_suspended:
  assumes "filter (\<lambda>u. email_matches E req_email (email u)) users = user # rest"
      and "\<not> falsy req_email" and "\<not> falsy req_password"
      and "id_col user \<noteq> 0" and "role user \<noteq> []"
      and "\<not> is_active user"
  shows "login_handler E req_email req_password now sqlnow users
           = (ErrorResponse 403 ''Account is suspended'' ''ACCOUNT_SUSPENDED'' None, users, 0)"
  using assms by (simp add: login_handler_def)

theorem inactive_account_suspended_witness:
  "comparePassword test_env (JStr ''correct horse'')
     (password (alice\<lparr>is_active := False, failed_login_attempts := 7,
                      last_failed_login := Some 900\<rparr>)) = Inr True
   \<and> login_handler test_env (JStr ''alice@example.com'') (JStr ''correct horse'') 1000 1000
       [alice\<lparr>is_active := False, failed_login_attempts := 7, last_failed_login := Some 900\<rparr>]
     = (ErrorResponse 403 ''Account is suspended'' ''ACCOUNT_SUSPENDED'' None,
        [alice\<lparr>is_active := False, failed_login_attempts := 7, last_failed_login := Some 900\<rparr>],
        0)"
proof -
  have c: "comparePassword test_env (JStr ''correct horse'')
     (password (alice\<lparr>is_active := False, failed_login_attempts := 7,
                      last_failed_login := Some 900\<rparr>)) = Inr True"
    by (simp add: fixture_defs)
  have l: "login_handler test_env (JStr ''alice@example.com'') (JStr ''correct horse'') 1000 1000
       [alice\<lparr>is_active := False, failed_login_attempts := 7, last_failed_login := Some 900\<rparr>]
     = (ErrorResponse 403 ''Account is suspended'' ''ACCOUNT_SUSPENDED'' None,
        [alice\<lparr>is_active := False, failed_login_attempts := 7, last_failed_login := Some 900\<rparr>],
        0)"
    by (rule inactive_account_suspended
          [where rest = "[]"
             and user = "alice\<lparr>is_active := False, failed_login_attempts := 7,
                               last_failed_login := Some 900\<rparr>"])
       (simp_all add: alice_def test_env_def)
  show ?thesis
    using c l by simp
qed

end
